theory Spec2Isabelle
  imports Main
begin

section \<open>Identifiers\<close>

text \<open>
  The framework's \<^verbatim>\<open>ID\<close> type is \<^verbatim>\<open>string | number\<close>. Numeric ids are the
  non-negative integers an auto-increment key produces.
\<close>

datatype ID = NumId nat | StrId string

definition dig :: "nat \<Rightarrow> char" where
  "dig d = ''0123456789'' ! d"

fun digits :: "nat \<Rightarrow> string" where
  "digits n = (if n < 10 then [dig n] else digits (n div 10) @ [dig (n mod 10)])"

declare digits.simps [simp del]

text \<open>\<^verbatim>\<open>id.toString()\<close>: a string is itself, a number is its decimal numeral.\<close>

fun toString :: "ID \<Rightarrow> string" where
  "toString (NumId n) = digits n"
| "toString (StrId s) = s"

text \<open>
  Modelled from the spec: \<^verbatim>\<open>idsAreEqual\<close> is imported from the framework's common
  utilities and its body is not among the sources. The spec describes it as an
  identity-aware equality that treats numeric and string forms of the same id as equal,
  normalising both representations before comparing. Both arguments are present at every
  call site of the plugin.
\<close>

definition idsAreEqual :: "ID \<Rightarrow> ID \<Rightarrow> bool" where
  "idsAreEqual id1 id2 = (toString id1 = toString id2)"


section \<open>Entities and the persistence layer\<close>

type_synonym Permission = string

record User =
  user_id :: ID
  user_identifier :: string

record Channel =
  channel_id :: ID
  channel_token :: string
  channel_code :: string

record Role =
  role_id :: ID
  role_permissions :: "Permission list"

text \<open>
  The junction entity is built by \<^verbatim>\<open>new ChannelRole({ user, channel, role })\<close>; the
  columns \<^verbatim>\<open>channelId\<close> and \<^verbatim>\<open>roleId\<close> read by the strategy are the ids of the
  related entities.
\<close>

record ChannelRole =
  cr_id :: ID
  cr_user :: User
  cr_channel :: Channel
  cr_role :: Role

definition cr_userId :: "ChannelRole \<Rightarrow> ID" where
  "cr_userId cr = user_id (cr_user cr)"

definition cr_channelId :: "ChannelRole \<Rightarrow> ID" where
  "cr_channelId cr = channel_id (cr_channel cr)"

definition cr_roleId :: "ChannelRole \<Rightarrow> ID" where
  "cr_roleId cr = role_id (cr_role cr)"

record ChannelRoleInput =
  channelId :: ID
  roleId :: ID

text \<open>
  \<^verbatim>\<open>DeletionResult\<close> and \<^verbatim>\<open>DeletionResponse\<close> come from the framework's generated
  types; the code reads and writes the fields \<^verbatim>\<open>result\<close> and \<^verbatim>\<open>message\<close>, the latter
  optional.
\<close>

datatype DeletionResult = DELETED | NOT_DELETED

record DeletionResponse =
  result :: DeletionResult
  message :: "string option"

text \<open>The value caught by \<^verbatim>\<open>catch (e: any)\<close>; \<^verbatim>\<open>e.message\<close> may be undefined.\<close>

datatype thrown = Thrown (thrown_message: "string option")

datatype error =
    EntityNotFoundError string ID
  | InternalServerError string string
  | IllegalOperationError string

text \<open>
  The database behind \<^verbatim>\<open>TransactionalConnection\<close>: one table per entity kind, rows in
  insertion order, and the counter of the auto-increment primary key of the junction table.
  The request context is passed through every call unchanged and never inspected, so it is
  left out.
\<close>

record Store =
  users :: "User list"
  channels :: "Channel list"
  roles :: "Role list"
  channelRoles :: "ChannelRole list"
  nextId :: nat

text \<open>
  Modelled from the spec: the persistence accessor (\<^verbatim>\<open>getEntityOrThrow\<close>, and the
  repository's \<^verbatim>\<open>find\<close>, \<^verbatim>\<open>save\<close> and \<^verbatim>\<open>remove\<close>) belongs to the host framework
  and is not among the sources. Given an entity kind and an id it returns the entity or
  fails with NotFound; ids are compared with the normalising equality. A repository
  supports find by filter, save and remove.
\<close>

definition getEntityOrThrow :: "string \<Rightarrow> ('a \<Rightarrow> ID) \<Rightarrow> 'a list \<Rightarrow> ID \<Rightarrow> error + 'a" where
  "getEntityOrThrow entityName idOf table i =
     (case List.find (\<lambda>e. idsAreEqual (idOf e) i) table of
        None \<Rightarrow> Inl (EntityNotFoundError entityName i)
      | Some e \<Rightarrow> Inr e)"

text \<open>
  Modelled from the spec: the repository's find by filter, here
  \<^verbatim>\<open>getRepository(ChannelRole).find({ where: { user: { id } } })\<close>, returns the rows of
  the user in insertion order.
\<close>

definition findByUser :: "Store \<Rightarrow> ID \<Rightarrow> ChannelRole list" where
  "findByUser s uid = filter (\<lambda>cr. idsAreEqual (cr_userId cr) uid) (channelRoles s)"

text \<open>
  Modelled from the spec: the repository's save, here
  \<^verbatim>\<open>getRepository(ChannelRole).save(entity)\<close> of a new entity. The row is appended and
  gets the next key.
\<close>

definition repoSave :: "Store \<Rightarrow> User \<Rightarrow> Channel \<Rightarrow> Role \<Rightarrow> ChannelRole \<times> Store" where
  "repoSave s user channel role =
     (let entity = \<lparr>cr_id = NumId (nextId s), cr_user = user, cr_channel = channel, cr_role = role\<rparr>
      in (entity, s\<lparr>channelRoles := channelRoles s @ [entity], nextId := Suc (nextId s)\<rparr>))"

text \<open>
  Modelled from the spec: the repository's remove, here
  \<^verbatim>\<open>getRepository(ChannelRole).remove(channelRole)\<close>, deletes by primary key. Whether
  the database refuses to remove a row (for instance because something still references
  it) is decided outside the plugin: the parameter \<open>rm\<close> gives, for a row, the exception
  the removal throws, if any.
\<close>

definition repoRemove :: "(ChannelRole \<Rightarrow> thrown option) \<Rightarrow> Store \<Rightarrow> ChannelRole \<Rightarrow> thrown + Store" where
  "repoRemove rm s channelRole =
     (case rm channelRole of
        Some e \<Rightarrow> Inl e
      | None \<Rightarrow> Inr (s\<lparr>channelRoles :=
                 filter (\<lambda>cr. \<not> idsAreEqual (cr_id cr) (cr_id channelRole)) (channelRoles s)\<rparr>))"


section \<open>ChannelRoleService\<close>

text \<open>
  \<^verbatim>\<open>create\<close> awaits the three loads jointly; they have no effect on the database, and
  the first miss in the order user, channel, role is the one reported here.
\<close>

definition create :: "Store \<Rightarrow> ID \<Rightarrow> ID \<Rightarrow> ID \<Rightarrow> (error + ChannelRole) \<times> Store" where
  "create s userId chanId rolId =
     (case getEntityOrThrow ''User'' user_id (users s) userId of
        Inl e \<Rightarrow> (Inl e, s)
      | Inr user \<Rightarrow>
          (case getEntityOrThrow ''Channel'' channel_id (channels s) chanId of
             Inl e \<Rightarrow> (Inl e, s)
           | Inr channel \<Rightarrow>
               (case getEntityOrThrow ''Role'' role_id (roles s) rolId of
                  Inl e \<Rightarrow> (Inl e, s)
                | Inr role \<Rightarrow>
                    (case repoSave s user channel role of (entity, s') \<Rightarrow> (Inr entity, s')))))"

definition delete :: "(ChannelRole \<Rightarrow> thrown option) \<Rightarrow> Store \<Rightarrow> ID \<Rightarrow> (error + DeletionResponse) \<times> Store" where
  "delete rm s i =
     (case getEntityOrThrow ''ChannelRole'' cr_id (channelRoles s) i of
        Inl e \<Rightarrow> (Inl e, s)
      | Inr channelRole \<Rightarrow>
          (case repoRemove rm s channelRole of
             Inr s' \<Rightarrow> (Inr \<lparr>result = DELETED, message = None\<rparr>, s')
           | Inl e \<Rightarrow> (Inr \<lparr>result = NOT_DELETED, message = thrown_message e\<rparr>, s)))"


section \<open>ChannelRolePermissionResolverStrategy\<close>

text \<open>The two loops of \<^verbatim>\<open>saveUserRoles\<close> that compute the diff.\<close>

definition toAddPairs :: "ChannelRole list \<Rightarrow> ChannelRoleInput list \<Rightarrow> ChannelRoleInput list" where
  "toAddPairs currentChannelRoles input =
     filter (\<lambda>channelRole.
        List.find (\<lambda>cr. idsAreEqual (cr_roleId cr) (roleId channelRole) \<and>
                        idsAreEqual (cr_channelId cr) (channelId channelRole))
          currentChannelRoles = None) input"

definition toRemoveChannelRoles :: "ChannelRole list \<Rightarrow> ChannelRoleInput list \<Rightarrow> ChannelRole list" where
  "toRemoveChannelRoles currentChannelRoles input =
     filter (\<lambda>channelRole.
        List.find (\<lambda>cr. idsAreEqual (roleId cr) (cr_roleId channelRole) \<and>
                        idsAreEqual (channelId cr) (cr_channelId channelRole))
          input = None) currentChannelRoles"

text \<open>
  \<^verbatim>\<open>Promise.all(toAddPairs.map(pair => create(...)))\<close>: every creation is started, none
  is cancelled when another one rejects, and the joint wait rejects with an error of a
  creation that failed (here the first in list order).
\<close>

fun createAll :: "Store \<Rightarrow> ID \<Rightarrow> ChannelRoleInput list \<Rightarrow> error option \<times> Store" where
  "createAll s uid [] = (None, s)"
| "createAll s uid (pair # rest) =
     (case create s uid (channelId pair) (roleId pair) of
        (Inl e, s') \<Rightarrow> (Some e, snd (createAll s' uid rest))
      | (Inr _, s') \<Rightarrow> createAll s' uid rest)"

text \<open>\<^verbatim>\<open>response.message || 'Unknown error'\<close>: undefined and the empty string are falsy.\<close>

definition messageOrUnknown :: "string option \<Rightarrow> string" where
  "messageOrUnknown m = (case m of None \<Rightarrow> ''Unknown error'' | Some t \<Rightarrow> if t = [] then ''Unknown error'' else t)"

fun removeChannelRoles :: "(ChannelRole \<Rightarrow> thrown option) \<Rightarrow> Store \<Rightarrow> ChannelRole list \<Rightarrow> (error + unit) \<times> Store" where
  "removeChannelRoles rm s [] = (Inr (), s)"
| "removeChannelRoles rm s (channelRole # rest) =
     (case delete rm s (cr_id channelRole) of
        (Inl e, s') \<Rightarrow> (Inl e, s')
      | (Inr response, s') \<Rightarrow>
          if result response = NOT_DELETED
          then (Inl (InternalServerError ''error.channel-role-deletion-failed''
                       (messageOrUnknown (message response))), s')
          else removeChannelRoles rm s' rest)"

definition saveUserRoles ::
  "(ChannelRole \<Rightarrow> thrown option) \<Rightarrow> Store \<Rightarrow> User \<Rightarrow> ChannelRoleInput list \<Rightarrow> (error + unit) \<times> Store" where
  "saveUserRoles rm s user input =
     (let currentChannelRoles = findByUser s (user_id user);
          toAdd = toAddPairs currentChannelRoles input;
          toRemove = toRemoveChannelRoles currentChannelRoles input
      in case createAll s (user_id user) toAdd of
           (Some e, s') \<Rightarrow> (Inl e, s')
         | (None, s') \<Rightarrow> removeChannelRoles rm s' toRemove)"

record UserChannelPermissions =
  ucp_id :: ID
  ucp_token :: string
  ucp_code :: string
  ucp_permissions :: "Permission list"

definition getPermissionsForUser :: "Store \<Rightarrow> User \<Rightarrow> UserChannelPermissions list" where
  "getPermissionsForUser s user =
     map (\<lambda>entry. \<lparr>ucp_id = channel_id (cr_channel entry),
                   ucp_token = channel_token (cr_channel entry),
                   ucp_code = channel_code (cr_channel entry),
                   ucp_permissions = role_permissions (cr_role entry)\<rparr>)
       (findByUser s (user_id user))"


section \<open>ChannelRoleResolver\<close>

text \<open>
  The resolver holds the administrator service. A service method takes the request
  context, the input and the state of the system, and returns an administrator or an error
  together with the new state.
\<close>

record Administrator =
  admin_id :: ID
  admin_user :: User

record ('ctx, 'cin, 'uin, 'st) AdministratorService =
  svc_create :: "'ctx \<Rightarrow> 'cin \<Rightarrow> 'st \<Rightarrow> (error + Administrator) \<times> 'st"
  svc_update :: "'ctx \<Rightarrow> 'uin \<Rightarrow> 'st \<Rightarrow> (error + Administrator) \<times> 'st"

definition createAdministrator ::
  "('ctx, 'cin, 'uin, 'st) AdministratorService \<Rightarrow> 'ctx \<Rightarrow> 'args \<Rightarrow> 'st \<Rightarrow> (error + Administrator) \<times> 'st" where
  "createAdministrator administratorService ctx args s =
     (Inl (IllegalOperationError ''error.channel-role-plugin-create-administrator-deprecated''), s)"

definition updateAdministrator ::
  "('ctx, 'cin, 'uin, 'st) AdministratorService \<Rightarrow> 'ctx \<Rightarrow> 'args \<Rightarrow> 'st \<Rightarrow> (error + Administrator) \<times> 'st" where
  "updateAdministrator administratorService ctx args s =
     (Inl (IllegalOperationError ''error.channel-role-plugin-update-administrator-deprecated''), s)"

definition createChannelAdministrator ::
  "('ctx, 'cin, 'uin, 'st) AdministratorService \<Rightarrow> 'ctx \<Rightarrow> 'cin \<Rightarrow> 'st \<Rightarrow> (error + Administrator) \<times> 'st" where
  "createChannelAdministrator administratorService ctx input s = svc_create administratorService ctx input s"

definition updateChannelAdministrator ::
  "('ctx, 'cin, 'uin, 'st) AdministratorService \<Rightarrow> 'ctx \<Rightarrow> 'uin \<Rightarrow> 'st \<Rightarrow> (error + Administrator) \<times> 'st" where
  "updateChannelAdministrator administratorService ctx input s = svc_update administratorService ctx input s"


section \<open>Well-formed stores and normalised pairs\<close>

text \<open>
  Primary keys of the junction table are unique and were all issued by the auto-increment
  counter.
\<close>

definition wf_store :: "Store \<Rightarrow> bool" where
  "wf_store s =
     (distinct (map (\<lambda>cr. toString (cr_id cr)) (channelRoles s)) \<and>
      list_all (\<lambda>cr. case cr_id cr of NumId k \<Rightarrow> k < nextId s | StrId _ \<Rightarrow> False) (channelRoles s))"

text \<open>A (channelId, roleId) pair up to the normalising equality.\<close>

definition inputPair :: "ChannelRoleInput \<Rightarrow> string \<times> string" where
  "inputPair p = (toString (channelId p), toString (roleId p))"

definition rowPair :: "ChannelRole \<Rightarrow> string \<times> string" where
  "rowPair cr = (toString (cr_channelId cr), toString (cr_roleId cr))"

definition persistedPairs :: "Store \<Rightarrow> User \<Rightarrow> (string \<times> string) set" where
  "persistedPairs s user = rowPair ` set (findByUser s (user_id user))"

text \<open>An id resolves in a table when some row carries it, up to the normalising equality.\<close>

definition resolves :: "('a \<Rightarrow> ID) \<Rightarrow> 'a list \<Rightarrow> ID \<Rightarrow> bool" where
  "resolves idOf table i = (\<exists>x\<in>set table. idsAreEqual (idOf x) i)"


section \<open>A concrete database\<close>

text \<open>
  Two users, two channels and three roles. Alice holds role X in channel A and role Y in
  channel B, Bob holds role X in channel A.
\<close>

definition alice :: User where
  "alice = \<lparr>user_id = NumId 42, user_identifier = ''alice''\<rparr>"

definition bob :: User where
  "bob = \<lparr>user_id = NumId 7, user_identifier = ''bob''\<rparr>"

definition channelA :: Channel where
  "channelA = \<lparr>channel_id = NumId 1, channel_token = ''token-a'', channel_code = ''channel-a''\<rparr>"

definition channelB :: Channel where
  "channelB = \<lparr>channel_id = NumId 2, channel_token = ''token-b'', channel_code = ''channel-b''\<rparr>"

definition roleX :: Role where
  "roleX = \<lparr>role_id = NumId 10, role_permissions = [''ReadCatalog'', ''UpdateCatalog'']\<rparr>"

definition roleY :: Role where
  "roleY = \<lparr>role_id = NumId 20, role_permissions = [''ReadOrder'', ''UpdateOrder'']\<rparr>"

definition roleZ :: Role where
  "roleZ = \<lparr>role_id = NumId 99, role_permissions = [''ReadCustomer'']\<rparr>"

definition row1 :: ChannelRole where
  "row1 = \<lparr>cr_id = NumId 1, cr_user = alice, cr_channel = channelA, cr_role = roleX\<rparr>"

definition row2 :: ChannelRole where
  "row2 = \<lparr>cr_id = NumId 2, cr_user = alice, cr_channel = channelB, cr_role = roleY\<rparr>"

definition row3 :: ChannelRole where
  "row3 = \<lparr>cr_id = NumId 3, cr_user = bob, cr_channel = channelA, cr_role = roleX\<rparr>"

definition row4 :: ChannelRole where
  "row4 = \<lparr>cr_id = NumId 4, cr_user = alice, cr_channel = channelA, cr_role = roleZ\<rparr>"

definition row4b :: ChannelRole where
  "row4b = \<lparr>cr_id = NumId 4, cr_user = bob, cr_channel = channelB, cr_role = roleY\<rparr>"

definition row5b :: ChannelRole where
  "row5b = \<lparr>cr_id = NumId 5, cr_user = bob, cr_channel = channelB, cr_role = roleY\<rparr>"

definition storeWith :: "ChannelRole list \<Rightarrow> nat \<Rightarrow> Store" where
  "storeWith rows n =
     \<lparr>users = [alice, bob], channels = [channelA, channelB], roles = [roleX, roleY, roleZ],
      channelRoles = rows, nextId = n\<rparr>"

definition exStore :: Store where
  "exStore = storeWith [row1, row2, row3] 4"

text \<open>The desired list \<open>[(1, 99)]\<close> for Alice, with the ids in their string form.\<close>

definition exInput :: "ChannelRoleInput list" where
  "exInput = [\<lparr>channelId = StrId ''1'', roleId = StrId ''99''\<rparr>]"

text \<open>The same pair twice, once with numeric and once with string ids.\<close>

definition pairNum :: ChannelRoleInput where
  "pairNum = \<lparr>channelId = NumId 2, roleId = NumId 20\<rparr>"

definition pairStr :: ChannelRoleInput where
  "pairStr = \<lparr>channelId = StrId ''2'', roleId = StrId ''20''\<rparr>"

text \<open>Three behaviours of the database on removal.\<close>

definition rmNone :: "ChannelRole \<Rightarrow> thrown option" where
  "rmNone cr = None"

definition rmSecond :: "ChannelRole \<Rightarrow> thrown option" where
  "rmSecond cr =
     (if cr_id cr = NumId 2 then Some (Thrown (Some ''FOREIGN KEY constraint failed'')) else None)"

definition rmEmptyMessage :: "ChannelRole \<Rightarrow> thrown option" where
  "rmEmptyMessage cr = (if cr_id cr = NumId 1 then Some (Thrown (Some [])) else None)"


section \<open>Auxiliary facts\<close>

text \<open>
  Decimal numerals are injective, so numeric keys are equal exactly when their normal forms
  are; the normalising equality is an equivalence.
\<close>

lemma dig_inj: "d < 10 \<Longrightarrow> e < 10 \<Longrightarrow> dig d = dig e \<Longrightarrow> d = e"
proof -
  have *: "\<And>k. k < 10 \<Longrightarrow> k \<in> {0,1,2,3,4,5,6,7,8,9::nat}" by auto
  assume "d < 10" "e < 10" "dig d = dig e"
  with *[of d] *[of e] show ?thesis by (auto simp: dig_def)
qed

lemma digits_small: "n < 10 \<Longrightarrow> digits n = [dig n]"
  by (subst digits.simps) simp

lemma digits_big: "\<not> n < 10 \<Longrightarrow> digits n = digits (n div 10) @ [dig (n mod 10)]"
  by (subst digits.simps) simp

lemma digits_nonempty: "digits n \<noteq> []"
  by (subst digits.simps) simp

lemma digits_inj: "digits n = digits m \<Longrightarrow> n = m"
proof (induction n arbitrary: m rule: digits.induct)
  case (1 n)
  show ?case
  proof (cases "n < 10")
    case True
    note nsmall = True
    show ?thesis
    proof (cases "m < 10")
      case True
      with nsmall "1.prems" show ?thesis by (simp add: digits_small dig_inj)
    next
      case False
      with nsmall "1.prems" digits_nonempty[of "m div 10"] show ?thesis
        by (simp add: digits_small digits_big)
    qed
  next
    case False
    note nbig = False
    show ?thesis
    proof (cases "m < 10")
      case True
      with nbig "1.prems" digits_nonempty[of "n div 10"] show ?thesis
        by (simp add: digits_small digits_big)
    next
      case False
      with nbig "1.prems" have a: "digits (n div 10) = digits (m div 10)"
        and b: "dig (n mod 10) = dig (m mod 10)" by (simp_all add: digits_big)
      from "1.IH"[OF nbig a] have "n div 10 = m div 10" .
      moreover from b have "n mod 10 = m mod 10" by (intro dig_inj) simp_all
      ultimately show ?thesis by (metis div_mult_mod_eq)
    qed
  qed
qed

lemma idsAreEqual_refl: "idsAreEqual a a"
  by (simp add: idsAreEqual_def)

lemma idsAreEqual_sym: "idsAreEqual a b = idsAreEqual b a"
  by (auto simp: idsAreEqual_def)

lemma idsAreEqual_trans: "idsAreEqual a b \<Longrightarrow> idsAreEqual b c \<Longrightarrow> idsAreEqual a c"
  by (simp add: idsAreEqual_def)

lemma idsAreEqual_NumId: "idsAreEqual (NumId j) (NumId k) = (j = k)"
  by (auto simp: idsAreEqual_def dest: digits_inj)

lemma find_SomeD: "find P xs = Some x \<Longrightarrow> x \<in> set xs \<and> P x"
  by (induction xs) (auto split: if_splits)

lemma getEntityOrThrow_Inr:
  "getEntityOrThrow n f t i = Inr e \<Longrightarrow> e \<in> set t \<and> idsAreEqual (f e) i"
  by (auto simp: getEntityOrThrow_def find_Some_iff split: option.splits)

lemma getEntityOrThrow_Inl:
  "getEntityOrThrow n f t i = Inl e \<Longrightarrow>
     e = EntityNotFoundError n i \<and> (\<forall>x\<in>set t. \<not> idsAreEqual (f x) i)"
  by (auto simp: getEntityOrThrow_def find_None_iff split: option.splits)

lemma getEntityOrThrow_cases:
  "(\<exists>e. getEntityOrThrow n f t i = Inr e) = (\<exists>x\<in>set t. idsAreEqual (f x) i)"
proof (cases "find (\<lambda>e. idsAreEqual (f e) i) t")
  case None
  then have "\<not> (\<exists>x\<in>set t. idsAreEqual (f x) i)" by (auto simp: find_None_iff)
  with None show ?thesis by (simp add: getEntityOrThrow_def)
next
  case (Some x)
  then have "x \<in> set t \<and> idsAreEqual (f x) i" by (rule find_SomeD)
  with Some show ?thesis by (auto simp: getEntityOrThrow_def)
qed

lemma pairMatch_iff:
  "(idsAreEqual (cr_roleId cr) (roleId p) \<and> idsAreEqual (cr_channelId cr) (channelId p))
     = (rowPair cr = inputPair p)"
  by (auto simp: idsAreEqual_def rowPair_def inputPair_def)

lemma pairMatch_iff':
  "(idsAreEqual (roleId p) (cr_roleId cr) \<and> idsAreEqual (channelId p) (cr_channelId cr))
     = (rowPair cr = inputPair p)"
  by (auto simp: idsAreEqual_def rowPair_def inputPair_def)

lemma set_toAddPairs:
  "set (toAddPairs cur input) = {p \<in> set input. inputPair p \<notin> rowPair ` set cur}"
  unfolding toAddPairs_def find_None_iff pairMatch_iff by (auto simp: image_iff)

lemma set_toRemoveChannelRoles:
  "set (toRemoveChannelRoles cur input) = {c \<in> set cur. rowPair c \<notin> inputPair ` set input}"
  unfolding toRemoveChannelRoles_def find_None_iff pairMatch_iff' by (auto simp: image_iff)

lemma create_Inr:
  assumes "create s u c r = (Inr e, s')"
  shows "s' = s\<lparr>channelRoles := channelRoles s @ [e], nextId := Suc (nextId s)\<rparr>"
    and "cr_id e = NumId (nextId s)"
    and "cr_user e \<in> set (users s)" and "idsAreEqual (cr_userId e) u"
    and "cr_channel e \<in> set (channels s)" and "idsAreEqual (cr_channelId e) c"
    and "cr_role e \<in> set (roles s)" and "idsAreEqual (cr_roleId e) r"
  using assms
  by (auto simp: create_def repoSave_def Let_def cr_userId_def cr_channelId_def cr_roleId_def
      split: sum.splits dest: getEntityOrThrow_Inr)

lemma create_Inl:
  assumes "create s u c r = (Inl e, s')"
  shows "s' = s"
  using assms
  by (auto simp: create_def repoSave_def Let_def split: sum.splits)


lemma createAll_None:
  "createAll s uid ps = (None, s') \<Longrightarrow>
     \<exists>news. s' = s\<lparr>channelRoles := channelRoles s @ news, nextId := nextId s + length ps\<rparr> \<and>
            list_all2 (\<lambda>e p. idsAreEqual (cr_userId e) uid \<and> rowPair e = inputPair p) news ps \<and>
            (\<forall>e\<in>set news. \<exists>k. cr_id e = NumId k \<and> nextId s \<le> k)"
proof (induction ps arbitrary: s)
  case Nil
  then show ?case by simp
next
  case (Cons p rest)
  obtain r s1 where c: "create s uid (channelId p) (roleId p) = (r, s1)"
    by (cases "create s uid (channelId p) (roleId p)")
  with Cons.prems obtain e where r: "r = Inr e" and rest: "createAll s1 uid rest = (None, s')"
    by (cases r) auto
  note ce = create_Inr[OF c[unfolded r]]
  from Cons.IH[OF rest] obtain news where
    s': "s' = s1\<lparr>channelRoles := channelRoles s1 @ news, nextId := nextId s1 + length rest\<rparr>"
    and l2: "list_all2 (\<lambda>e p. idsAreEqual (cr_userId e) uid \<and> rowPair e = inputPair p) news rest"
    and fresh: "\<forall>e\<in>set news. \<exists>k. cr_id e = NumId k \<and> nextId s1 \<le> k"
    by blast
  have pe: "rowPair e = inputPair p"
    using ce(6) ce(8) by (simp add: pairMatch_iff[symmetric])
  have 1: "s' = s\<lparr>channelRoles := channelRoles s @ (e # news), nextId := nextId s + length (p # rest)\<rparr>"
    using s' ce(1) by simp
  have 2: "list_all2 (\<lambda>e p. idsAreEqual (cr_userId e) uid \<and> rowPair e = inputPair p) (e # news) (p # rest)"
    using l2 pe ce(4) by simp
  have 3: "\<forall>x\<in>set (e # news). \<exists>k. cr_id x = NumId k \<and> nextId s \<le> k"
    using fresh ce(1) ce(2) by auto
  from 1 2 3 show ?case by blast
qed

lemma delete_DELETED:
  assumes "delete rm s i = (Inr resp, s')" and "result resp \<noteq> NOT_DELETED"
  shows "s' = s\<lparr>channelRoles := filter (\<lambda>c. \<not> idsAreEqual (cr_id c) i) (channelRoles s)\<rparr>"
proof -
  from assms obtain c where g: "getEntityOrThrow ''ChannelRole'' cr_id (channelRoles s) i = Inr c"
    by (auto simp: delete_def split: sum.splits)
  then have ci: "idsAreEqual (cr_id c) i" by (auto dest: getEntityOrThrow_Inr)
  have eq: "\<And>x. idsAreEqual (cr_id x) (cr_id c) = idsAreEqual (cr_id x) i"
    using ci by (auto simp: idsAreEqual_def)
  from assms g show ?thesis
    by (auto simp: delete_def repoRemove_def eq split: sum.splits option.splits)
qed

lemma removeChannelRoles_Inr:
  "removeChannelRoles rm s xs = (Inr u, s') \<Longrightarrow>
     s' = s\<lparr>channelRoles :=
             filter (\<lambda>c. \<forall>x\<in>set xs. \<not> idsAreEqual (cr_id c) (cr_id x)) (channelRoles s)\<rparr>"
proof (induction xs arbitrary: s)
  case Nil
  then show ?case by simp
next
  case (Cons x rest)
  obtain r s1 where d: "delete rm s (cr_id x) = (r, s1)"
    by (cases "delete rm s (cr_id x)")
  with Cons.prems obtain resp where r: "r = Inr resp" and ok: "result resp \<noteq> NOT_DELETED"
      and rest: "removeChannelRoles rm s1 rest = (Inr u, s')"
    by (cases r) (auto split: if_splits)
  from delete_DELETED[OF d[unfolded r] ok]
  have s1: "s1 = s\<lparr>channelRoles := filter (\<lambda>c. \<not> idsAreEqual (cr_id c) (cr_id x)) (channelRoles s)\<rparr>" .
  from Cons.IH[OF rest] s1 show ?case
    by (auto intro!: filter_cong)
qed


lemma wf_store_unique:
  assumes "wf_store s" "c \<in> set (channelRoles s)" "x \<in> set (channelRoles s)"
    "idsAreEqual (cr_id c) (cr_id x)"
  shows "c = x"
proof -
  from assms(1) have "inj_on (\<lambda>cr. toString (cr_id cr)) (set (channelRoles s))"
    by (simp add: wf_store_def distinct_map)
  with assms(2-4) show ?thesis by (auto simp: idsAreEqual_def dest: inj_onD)
qed

lemma wf_store_fresh:
  assumes "wf_store s" "x \<in> set (channelRoles s)" "cr_id e = NumId k" "nextId s \<le> k"
  shows "\<not> idsAreEqual (cr_id e) (cr_id x)"
proof -
  from assms(1,2) have
    "case cr_id x of NumId j \<Rightarrow> j < nextId s | StrId _ \<Rightarrow> False"
    by (simp add: wf_store_def list_all_iff)
  then obtain j where "cr_id x = NumId j" "j < nextId s"
    by (cases "cr_id x") auto
  with assms(3,4) show ?thesis by (simp add: idsAreEqual_NumId)
qed

lemma list_all2_image_eq:
  "list_all2 (\<lambda>e p. Q e \<and> f e = g p) xs ys \<Longrightarrow> f ` set xs = g ` set ys \<and> (\<forall>e\<in>set xs. Q e)"
  by (induction xs ys rule: list_all2_induct) auto

lemma saveUserRoles_rows:
  assumes "saveUserRoles rm s user input = (Inr u, s')"
  shows "\<exists>news.
     channelRoles s' =
       filter (\<lambda>c. \<forall>x\<in>set (toRemoveChannelRoles (findByUser s (user_id user)) input).
                     \<not> idsAreEqual (cr_id c) (cr_id x)) (channelRoles s @ news) \<and>
     list_all2 (\<lambda>e p. idsAreEqual (cr_userId e) (user_id user) \<and> rowPair e = inputPair p)
       news (toAddPairs (findByUser s (user_id user)) input) \<and>
     (\<forall>e\<in>set news. \<exists>k. cr_id e = NumId k \<and> nextId s \<le> k)"
proof -
  let ?cur = "findByUser s (user_id user)"
  obtain r s1 where c: "createAll s (user_id user) (toAddPairs ?cur input) = (r, s1)"
    by (cases "createAll s (user_id user) (toAddPairs ?cur input)")
  with assms have r: "r = None" and rest: "removeChannelRoles rm s1 (toRemoveChannelRoles ?cur input) = (Inr u, s')"
    by (auto simp: saveUserRoles_def Let_def split: option.splits)
  from createAll_None[OF c[unfolded r]] obtain news where
    s1: "s1 = s\<lparr>channelRoles := channelRoles s @ news,
                nextId := nextId s + length (toAddPairs ?cur input)\<rparr>"
    and l2: "list_all2 (\<lambda>e p. idsAreEqual (cr_userId e) (user_id user) \<and> rowPair e = inputPair p)
       news (toAddPairs ?cur input)"
    and fresh: "\<forall>e\<in>set news. \<exists>k. cr_id e = NumId k \<and> nextId s \<le> k"
    by blast
  from removeChannelRoles_Inr[OF rest] s1 have
    "channelRoles s' = filter (\<lambda>c. \<forall>x\<in>set (toRemoveChannelRoles ?cur input).
                     \<not> idsAreEqual (cr_id c) (cr_id x)) (channelRoles s @ news)"
    by simp
  with l2 fresh show ?thesis by blast
qed

lemma saveUserRoles_pairs:
  assumes wf: "wf_store s" and ok: "saveUserRoles rm s user input = (Inr u, s')"
  shows "persistedPairs s' user = inputPair ` set input"
proof -
  let ?uid = "user_id user"
  let ?cur = "findByUser s ?uid"
  let ?rem = "toRemoveChannelRoles ?cur input"
  let ?add = "toAddPairs ?cur input"
  from saveUserRoles_rows[OF ok] obtain news where
    rows: "channelRoles s' =
       filter (\<lambda>c. \<forall>x\<in>set ?rem. \<not> idsAreEqual (cr_id c) (cr_id x)) (channelRoles s @ news)"
    and l2: "list_all2 (\<lambda>e p. idsAreEqual (cr_userId e) ?uid \<and> rowPair e = inputPair p) news ?add"
    and fresh: "\<forall>e\<in>set news. \<exists>k. cr_id e = NumId k \<and> nextId s \<le> k"
    by blast
  have cur_sub: "set ?cur \<subseteq> set (channelRoles s)" by (auto simp: findByUser_def)
  have rem_sub: "set ?rem \<subseteq> set ?cur" by (auto simp: set_toRemoveChannelRoles)
  have new_keep: "\<forall>x\<in>set ?rem. \<not> idsAreEqual (cr_id e) (cr_id x)" if "e \<in> set news" for e
  proof
    fix x assume "x \<in> set ?rem"
    with rem_sub cur_sub have "x \<in> set (channelRoles s)" by blast
    moreover from fresh that obtain k where "cr_id e = NumId k" "nextId s \<le> k" by blast
    ultimately show "\<not> idsAreEqual (cr_id e) (cr_id x)" using wf by (blast dest: wf_store_fresh)
  qed
  have old_keep: "(\<forall>x\<in>set ?rem. \<not> idsAreEqual (cr_id c) (cr_id x)) = (c \<notin> set ?rem)"
    if "c \<in> set (channelRoles s)" for c
  proof
    assume "\<forall>x\<in>set ?rem. \<not> idsAreEqual (cr_id c) (cr_id x)"
    then show "c \<notin> set ?rem" using idsAreEqual_refl by blast
  next
    assume n: "c \<notin> set ?rem"
    show "\<forall>x\<in>set ?rem. \<not> idsAreEqual (cr_id c) (cr_id x)"
    proof
      fix x assume x: "x \<in> set ?rem"
      with rem_sub cur_sub have "x \<in> set (channelRoles s)" by blast
      with wf that have "idsAreEqual (cr_id c) (cr_id x) \<Longrightarrow> c = x" by (rule wf_store_unique)
      with n x show "\<not> idsAreEqual (cr_id c) (cr_id x)" by blast
    qed
  qed
  have final: "set (findByUser s' ?uid) =
      {c \<in> set ?cur. c \<notin> set ?rem} \<union> {e \<in> set news. idsAreEqual (cr_userId e) ?uid}"
    using new_keep old_keep by (auto simp: findByUser_def rows)
  have news_user: "idsAreEqual (cr_userId e) ?uid" if "e \<in> set news" for e
    using list_all2_image_eq[OF l2] that by blast
  have news_pairs: "rowPair ` set news = inputPair ` set ?add"
    using list_all2_image_eq[OF l2] by blast
  have kept_pairs: "rowPair ` {c \<in> set ?cur. c \<notin> set ?rem} = inputPair ` set input \<inter> rowPair ` set ?cur"
    by (auto simp: set_toRemoveChannelRoles)
  have add_pairs: "inputPair ` set ?add = inputPair ` set input - rowPair ` set ?cur"
    unfolding set_toAddPairs by (auto simp: image_iff)
  have "persistedPairs s' user = rowPair ` {c \<in> set ?cur. c \<notin> set ?rem} \<union> rowPair ` set news"
    using news_user by (auto simp: persistedPairs_def final)
  also have "\<dots> = inputPair ` set input"
    unfolding kept_pairs news_pairs add_pairs by blast
  finally show ?thesis .
qed


lemma delete_present:
  assumes d: "distinct (map (\<lambda>cr. toString (cr_id cr)) (channelRoles s))"
    and x: "x \<in> set (channelRoles s)"
  shows "delete rm s (cr_id x) =
     (case rm x of
        Some e \<Rightarrow> (Inr \<lparr>result = NOT_DELETED, message = thrown_message e\<rparr>, s)
      | None \<Rightarrow> (Inr \<lparr>result = DELETED, message = None\<rparr>,
                 s\<lparr>channelRoles := filter (\<lambda>c. c \<noteq> x) (channelRoles s)\<rparr>))"
proof -
  from d have inj: "inj_on (\<lambda>cr. toString (cr_id cr)) (set (channelRoles s))"
    by (simp add: distinct_map)
  have same: "idsAreEqual (cr_id c) (cr_id x) = (c = x)" if "c \<in> set (channelRoles s)" for c
    using inj that x by (auto simp: idsAreEqual_def dest: inj_onD)
  from x have "\<exists>c\<in>set (channelRoles s). idsAreEqual (cr_id c) (cr_id x)"
    using idsAreEqual_refl by blast
  then obtain c where g: "getEntityOrThrow ''ChannelRole'' cr_id (channelRoles s) (cr_id x) = Inr c"
    using getEntityOrThrow_cases[of "''ChannelRole''" cr_id "channelRoles s" "cr_id x"] by blast
  then have "c \<in> set (channelRoles s)" "idsAreEqual (cr_id c) (cr_id x)"
    by (auto dest: getEntityOrThrow_Inr)
  with same have cx: "c = x" by blast
  have f: "filter (\<lambda>c. \<not> idsAreEqual (cr_id c) (cr_id x)) (channelRoles s)
             = filter (\<lambda>c. c \<noteq> x) (channelRoles s)"
    by (rule filter_cong) (simp_all add: same)
  show ?thesis
    by (simp add: delete_def g cx repoRemove_def f split: option.splits)
qed

lemma removeChannelRoles_prefix:
  assumes "distinct (map (\<lambda>cr. toString (cr_id cr)) (channelRoles s))"
    and "set (done @ [failing]) \<subseteq> set (channelRoles s)"
    and "distinct (done @ [failing])"
    and "\<forall>x\<in>set done. rm x = None"
    and "rm failing = Some e"
  shows "removeChannelRoles rm s (done @ failing # pending) =
     (Inl (InternalServerError ''error.channel-role-deletion-failed''
             (messageOrUnknown (thrown_message e))),
      s\<lparr>channelRoles := filter (\<lambda>c. c \<notin> set done) (channelRoles s)\<rparr>)"
  using assms
proof (induction "done" arbitrary: s)
  case Nil
  then show ?case by (simp add: delete_present)
next
  case (Cons x rest)
  let ?s1 = "s\<lparr>channelRoles := filter (\<lambda>c. c \<noteq> x) (channelRoles s)\<rparr>"
  from Cons.prems have x: "x \<in> set (channelRoles s)" and rx: "rm x = None" by auto
  have del: "delete rm s (cr_id x) = (Inr \<lparr>result = DELETED, message = None\<rparr>, ?s1)"
    using delete_present[OF Cons.prems(1) x, of rm] rx by simp
  have 1: "distinct (map (\<lambda>cr. toString (cr_id cr)) (channelRoles ?s1))"
    using Cons.prems(1) by (simp add: distinct_map_filter)
  have 2: "set (rest @ [failing]) \<subseteq> set (channelRoles ?s1)"
    using Cons.prems(2,3) by auto
  have 3: "distinct (rest @ [failing])" using Cons.prems(3) by simp
  have 4: "\<forall>x\<in>set rest. rm x = None" using Cons.prems(4) by simp
  have "removeChannelRoles rm ?s1 (rest @ failing # pending) =
     (Inl (InternalServerError ''error.channel-role-deletion-failed''
             (messageOrUnknown (thrown_message e))),
      ?s1\<lparr>channelRoles := filter (\<lambda>c. c \<notin> set rest) (channelRoles ?s1)\<rparr>)"
    by (rule Cons.IH[OF 1 2 3 4 Cons.prems(5)])
  moreover have "filter (\<lambda>c. c \<notin> set rest) (filter (\<lambda>c. c \<noteq> x) (channelRoles s))
      = filter (\<lambda>c. c \<notin> set (x # rest)) (channelRoles s)"
    by (auto intro: filter_cong)
  ultimately show ?case by (simp add: del)
qed

lemma create_wf:
  assumes "wf_store s" "create s u c r = (res, s')"
  shows "wf_store s'"
proof (cases res)
  case (Inl e)
  with assms show ?thesis by (auto dest: create_Inl)
next
  case (Inr e)
  note ce = create_Inr[OF assms(2)[unfolded Inr]]
  have "toString (cr_id e) \<notin> (\<lambda>cr. toString (cr_id cr)) ` set (channelRoles s)"
    using wf_store_fresh[OF assms(1) _ ce(2) order_refl] by (auto simp: idsAreEqual_def)
  moreover have "list_all (\<lambda>cr. case cr_id cr of NumId k \<Rightarrow> k < Suc (nextId s) | StrId _ \<Rightarrow> False)
      (channelRoles s)"
    using assms(1) by (auto simp: wf_store_def list_all_iff split: ID.splits)
  moreover have rows: "channelRoles s' = channelRoles s @ [e]" and nid: "nextId s' = Suc (nextId s)"
    using ce(1) by simp_all
  ultimately show ?thesis unfolding wf_store_def rows nid
    using assms(1) ce(2) by (simp add: wf_store_def)
qed

lemma createAll_wf: "wf_store s \<Longrightarrow> wf_store (snd (createAll s uid ps))"
proof (induction ps arbitrary: s)
  case Nil
  then show ?case by simp
next
  case (Cons p rest)
  obtain r s1 where c: "create s uid (channelId p) (roleId p) = (r, s1)"
    by (cases "create s uid (channelId p) (roleId p)")
  from create_wf[OF Cons.prems c] have "wf_store s1" .
  from Cons.IH[OF this] c show ?case by (cases r) (simp_all add: split_beta)
qed


lemma removeChannelRoles_append:
  "removeChannelRoles rm s (xs @ ys) =
     (case removeChannelRoles rm s xs of (Inl e, s') \<Rightarrow> (Inl e, s') | (Inr u, s') \<Rightarrow> removeChannelRoles rm s' ys)"
  by (induction xs arbitrary: s) (auto split: prod.splits sum.splits)

lemma delete_NOT_DELETED:
  assumes "delete rm s i = (Inr resp, s')" and "result resp = NOT_DELETED"
  shows "s' = s"
  using assms by (auto simp: delete_def repoRemove_def split: sum.splits option.splits)

lemma getEntityOrThrow_resolves:
  "resolves f t i = (\<exists>e. getEntityOrThrow n f t i = Inr e)"
  by (simp add: resolves_def getEntityOrThrow_cases)

lemma getEntityOrThrow_unresolved:
  "\<not> resolves f t i \<Longrightarrow> getEntityOrThrow n f t i = Inl (EntityNotFoundError n i)"
  by (cases "getEntityOrThrow n f t i")
     (auto simp: getEntityOrThrow_resolves[of f t i n] dest: getEntityOrThrow_Inl)


text \<open>Well-formedness is an invariant: every Save preserves it, whatever its outcome.\<close>

lemma wf_store_filter:
  assumes "wf_store s"
  shows "wf_store (s\<lparr>channelRoles := filter P (channelRoles s)\<rparr>)"
proof -
  have n: "nextId (s\<lparr>channelRoles := filter P (channelRoles s)\<rparr>) = nextId s" by simp
  have r: "channelRoles (s\<lparr>channelRoles := filter P (channelRoles s)\<rparr>) = filter P (channelRoles s)"
    by simp
  show ?thesis unfolding wf_store_def n r
    using assms by (auto simp: wf_store_def distinct_map_filter list_all_iff)
qed

lemma delete_store:
  "delete rm s i = (r, s') \<Longrightarrow>
     s' = s \<or> (\<exists>P. s' = s\<lparr>channelRoles := filter P (channelRoles s)\<rparr>)"
  by (auto simp: delete_def repoRemove_def split: sum.splits option.splits)

lemma delete_wf: "wf_store s \<Longrightarrow> wf_store (snd (delete rm s i))"
  using delete_store[of rm s i "fst (delete rm s i)" "snd (delete rm s i)"]
  by (auto simp: wf_store_filter)

lemma removeChannelRoles_wf: "wf_store s \<Longrightarrow> wf_store (snd (removeChannelRoles rm s xs))"
proof (induction xs arbitrary: s)
  case Nil
  then show ?case by simp
next
  case (Cons x rest)
  obtain r s1 where d: "delete rm s (cr_id x) = (r, s1)"
    by (cases "delete rm s (cr_id x)")
  from delete_wf[OF Cons.prems, of rm "cr_id x"] d have "wf_store s1" by simp
  from Cons.IH[OF this] this d show ?case by (cases r) simp_all
qed

lemma saveUserRoles_wf: "wf_store s \<Longrightarrow> wf_store (snd (saveUserRoles rm s user input))"
proof -
  assume wf: "wf_store s"
  let ?cur = "findByUser s (user_id user)"
  obtain r s1 where c: "createAll s (user_id user) (toAddPairs ?cur input) = (r, s1)"
    by (cases "createAll s (user_id user) (toAddPairs ?cur input)")
  from createAll_wf[OF wf, of "user_id user" "toAddPairs ?cur input"] c have w1: "wf_store s1"
    by simp
  show ?thesis
  proof (cases r)
    case None
    with c w1 show ?thesis by (simp add: saveUserRoles_def removeChannelRoles_wf)
  next
    case (Some e)
    with c w1 show ?thesis by (simp add: saveUserRoles_def)
  qed
qed


section \<open>Claims about the reconciliation\<close>

text \<open>
  C1 (convergence). For every user and every desired list, on a database whose junction
  rows have unique auto-increment keys, a Save that completes without error leaves exactly
  the desired pairs associated with the user: the set of persisted (channelId, roleId)
  pairs equals the set of desired pairs, both taken up to the normalising equality of ids.
  Being an equality of sets, it does not depend on the order of the list or on duplicates.
\<close>

theorem saveUserRoles_converges:
  assumes "wf_store s" and "saveUserRoles rm s user input = (Inr (), s')"
  shows "persistedPairs s' user = inputPair ` set input"
  using assms by (rule saveUserRoles_pairs)

theorem saveUserRoles_converges_witness:
  "wf_store exStore \<and>
   saveUserRoles rmNone exStore alice exInput = (Inr (), storeWith [row3, row4] 5) \<and>
   persistedPairs (storeWith [row3, row4] 5) alice = inputPair ` set exInput \<and>
   inputPair ` set exInput = {(''1'', ''99'')}"
proof -
  have h1: "wf_store exStore" by code_simp
  have h2: "saveUserRoles rmNone exStore alice exInput = (Inr (), storeWith [row3, row4] 5)"
    by code_simp
  have c: "persistedPairs (storeWith [row3, row4] 5) alice = inputPair ` set exInput"
    by (rule saveUserRoles_converges[OF h1 h2])
  have v: "inputPair ` set exInput = {(''1'', ''99'')}" by code_simp
  from h1 h2 c v show ?thesis by blast
qed

text \<open>
  C3 (idempotence). After a successful Save on a well-formed database, a second Save with
  the same user and the same desired list, on the database the first one left, computes an
  empty diff (nothing to add, nothing to remove), succeeds, and returns the database
  unchanged, whatever the database would answer to removals.
\<close>

theorem saveUserRoles_idempotent:
  assumes "wf_store s" and "saveUserRoles rm s user input = (Inr (), s')"
  shows "toAddPairs (findByUser s' (user_id user)) input = [] \<and>
         toRemoveChannelRoles (findByUser s' (user_id user)) input = [] \<and>
         saveUserRoles rm' s' user input = (Inr (), s')"
proof -
  from saveUserRoles_pairs[OF assms]
  have eq: "rowPair ` set (findByUser s' (user_id user)) = inputPair ` set input"
    by (simp add: persistedPairs_def)
  have "set (toAddPairs (findByUser s' (user_id user)) input) = {}"
    unfolding set_toAddPairs eq by blast
  then have a: "toAddPairs (findByUser s' (user_id user)) input = []" by simp
  have "set (toRemoveChannelRoles (findByUser s' (user_id user)) input) = {}"
    unfolding set_toRemoveChannelRoles eq[symmetric] by blast
  then have r: "toRemoveChannelRoles (findByUser s' (user_id user)) input = []" by simp
  have "saveUserRoles rm' s' user input = (Inr (), s')"
    by (simp add: saveUserRoles_def a r)
  with a r show ?thesis by blast
qed

theorem saveUserRoles_idempotent_witness:
  "wf_store exStore \<and>
   saveUserRoles rmNone exStore alice exInput = (Inr (), storeWith [row3, row4] 5) \<and>
   toAddPairs (findByUser (storeWith [row3, row4] 5) (user_id alice)) exInput = [] \<and>
   toRemoveChannelRoles (findByUser (storeWith [row3, row4] 5) (user_id alice)) exInput = [] \<and>
   saveUserRoles rmSecond (storeWith [row3, row4] 5) alice exInput = (Inr (), storeWith [row3, row4] 5)"
proof -
  have h1: "wf_store exStore" by code_simp
  have h2: "saveUserRoles rmNone exStore alice exInput = (Inr (), storeWith [row3, row4] 5)"
    by code_simp
  from saveUserRoles_idempotent[OF h1 h2, of rmSecond] h1 h2 show ?thesis by blast
qed

text \<open>
  C10 (disjoint diff). In every Save, no pair is both created and removed: a pair for
  which a creation is issued never equals, under the normalising equality of ids, the pair
  of an association for which a deletion is issued.
\<close>

theorem toAdd_toRemove_disjoint:
  "\<forall>p \<in> set (toAddPairs (findByUser s (user_id user)) input).
     \<forall>cr \<in> set (toRemoveChannelRoles (findByUser s (user_id user)) input).
       \<not> (idsAreEqual (cr_channelId cr) (channelId p) \<and> idsAreEqual (cr_roleId cr) (roleId p))"
proof (intro ballI)
  fix p cr
  assume p: "p \<in> set (toAddPairs (findByUser s (user_id user)) input)"
    and cr: "cr \<in> set (toRemoveChannelRoles (findByUser s (user_id user)) input)"
  from p have "inputPair p \<notin> rowPair ` set (findByUser s (user_id user))"
    by (simp add: set_toAddPairs)
  moreover from cr have "cr \<in> set (findByUser s (user_id user))"
    by (simp add: set_toRemoveChannelRoles)
  ultimately have "rowPair cr \<noteq> inputPair p" by force
  then show "\<not> (idsAreEqual (cr_channelId cr) (channelId p) \<and> idsAreEqual (cr_roleId cr) (roleId p))"
    using pairMatch_iff[of cr p] by blast
qed

theorem toAdd_toRemove_disjoint_witness:
  "hd exInput \<in> set (toAddPairs (findByUser exStore (user_id alice)) exInput) \<and>
   row1 \<in> set (toRemoveChannelRoles (findByUser exStore (user_id alice)) exInput) \<and>
   \<not> (idsAreEqual (cr_channelId row1) (channelId (hd exInput)) \<and>
      idsAreEqual (cr_roleId row1) (roleId (hd exInput)))"
proof -
  have h1: "hd exInput \<in> set (toAddPairs (findByUser exStore (user_id alice)) exInput)"
    by code_simp
  have h2: "row1 \<in> set (toRemoveChannelRoles (findByUser exStore (user_id alice)) exInput)"
    by code_simp
  from toAdd_toRemove_disjoint[of exStore alice exInput] h1 h2 show ?thesis by blast
qed


section \<open>Claims about the association store\<close>

text \<open>
  C5 (referential integrity of Create). If the user id, the channel id or the role id does
  not resolve, \<open>create\<close> fails with an EntityNotFoundError and the database is unchanged;
  if all three resolve, it appends one new association with a fresh key, returns it, and
  that association references a user, a channel and a role of the database with the
  requested ids.
\<close>

theorem create_referential_integrity:
  "(\<not> resolves user_id (users s) userId \<or> \<not> resolves channel_id (channels s) chanId \<or>
    \<not> resolves role_id (roles s) rolId
      \<longrightarrow> (\<exists>kind i. create s userId chanId rolId = (Inl (EntityNotFoundError kind i), s))) \<and>
   (resolves user_id (users s) userId \<and> resolves channel_id (channels s) chanId \<and>
    resolves role_id (roles s) rolId
      \<longrightarrow> (\<exists>entity.
            create s userId chanId rolId =
              (Inr entity, s\<lparr>channelRoles := channelRoles s @ [entity], nextId := Suc (nextId s)\<rparr>) \<and>
            cr_id entity = NumId (nextId s) \<and>
            cr_user entity \<in> set (users s) \<and> idsAreEqual (cr_userId entity) userId \<and>
            cr_channel entity \<in> set (channels s) \<and> idsAreEqual (cr_channelId entity) chanId \<and>
            cr_role entity \<in> set (roles s) \<and> idsAreEqual (cr_roleId entity) rolId))"
proof (intro conjI impI)
  assume miss: "\<not> resolves user_id (users s) userId \<or> \<not> resolves channel_id (channels s) chanId \<or>
    \<not> resolves role_id (roles s) rolId"
  obtain r s' where c: "create s userId chanId rolId = (r, s')"
    by (cases "create s userId chanId rolId")
  show "\<exists>kind i. create s userId chanId rolId = (Inl (EntityNotFoundError kind i), s)"
  proof (cases r)
    case (Inl e)
    with c have "s' = s" by (auto dest: create_Inl)
    moreover from c Inl have "\<exists>kind i. e = EntityNotFoundError kind i"
      by (auto simp: create_def repoSave_def Let_def split: sum.splits dest!: getEntityOrThrow_Inl)
    ultimately show ?thesis using c Inl by auto
  next
    case (Inr entity)
    note ce = create_Inr[OF c[unfolded Inr]]
    from ce(3,4) have "resolves user_id (users s) userId"
      by (auto simp: resolves_def cr_userId_def)
    moreover from ce(5,6) have "resolves channel_id (channels s) chanId"
      by (auto simp: resolves_def cr_channelId_def)
    moreover from ce(7,8) have "resolves role_id (roles s) rolId"
      by (auto simp: resolves_def cr_roleId_def)
    ultimately show ?thesis using miss by blast
  qed
next
  assume ok: "resolves user_id (users s) userId \<and> resolves channel_id (channels s) chanId \<and>
    resolves role_id (roles s) rolId"
  then obtain user channel role where
    g: "getEntityOrThrow ''User'' user_id (users s) userId = Inr user"
       "getEntityOrThrow ''Channel'' channel_id (channels s) chanId = Inr channel"
       "getEntityOrThrow ''Role'' role_id (roles s) rolId = Inr role"
    using getEntityOrThrow_resolves[of user_id "users s" userId "''User''"]
      getEntityOrThrow_resolves[of channel_id "channels s" chanId "''Channel''"]
      getEntityOrThrow_resolves[of role_id "roles s" rolId "''Role''"] by blast
  let ?entity = "\<lparr>cr_id = NumId (nextId s), cr_user = user, cr_channel = channel, cr_role = role\<rparr>"
  have c: "create s userId chanId rolId =
      (Inr ?entity, s\<lparr>channelRoles := channelRoles s @ [?entity], nextId := Suc (nextId s)\<rparr>)"
    by (simp add: create_def g repoSave_def Let_def)
  from create_Inr[OF c] c show "\<exists>entity.
            create s userId chanId rolId =
              (Inr entity, s\<lparr>channelRoles := channelRoles s @ [entity], nextId := Suc (nextId s)\<rparr>) \<and>
            cr_id entity = NumId (nextId s) \<and>
            cr_user entity \<in> set (users s) \<and> idsAreEqual (cr_userId entity) userId \<and>
            cr_channel entity \<in> set (channels s) \<and> idsAreEqual (cr_channelId entity) chanId \<and>
            cr_role entity \<in> set (roles s) \<and> idsAreEqual (cr_roleId entity) rolId"
    by blast
qed

theorem create_referential_integrity_witness:
  "\<not> resolves channel_id (channels exStore) (StrId ''999'') \<and>
   (\<exists>kind i. create exStore (NumId 42) (StrId ''999'') (StrId ''10'') =
      (Inl (EntityNotFoundError kind i), exStore)) \<and>
   resolves user_id (users exStore) (NumId 42) \<and>
   resolves channel_id (channels exStore) (StrId ''1'') \<and>
   resolves role_id (roles exStore) (StrId ''99'') \<and>
   (\<exists>entity.
      create exStore (NumId 42) (StrId ''1'') (StrId ''99'') =
        (Inr entity, exStore\<lparr>channelRoles := channelRoles exStore @ [entity],
                              nextId := Suc (nextId exStore)\<rparr>) \<and>
      cr_id entity = NumId (nextId exStore) \<and>
      cr_user entity \<in> set (users exStore) \<and> idsAreEqual (cr_userId entity) (NumId 42) \<and>
      cr_channel entity \<in> set (channels exStore) \<and> idsAreEqual (cr_channelId entity) (StrId ''1'') \<and>
      cr_role entity \<in> set (roles exStore) \<and> idsAreEqual (cr_roleId entity) (StrId ''99'')) \<and>
   create exStore (NumId 42) (StrId ''1'') (StrId ''99'') =
     (Inr row4, storeWith [row1, row2, row3, row4] 5)"
proof -
  have h1: "\<not> resolves channel_id (channels exStore) (StrId ''999'')" by code_simp
  have h2: "resolves user_id (users exStore) (NumId 42)" by code_simp
  have h3: "resolves channel_id (channels exStore) (StrId ''1'')" by code_simp
  have h4: "resolves role_id (roles exStore) (StrId ''99'')" by code_simp
  have v: "create exStore (NumId 42) (StrId ''1'') (StrId ''99'') =
     (Inr row4, storeWith [row1, row2, row3, row4] 5)" by code_simp
  from create_referential_integrity[of exStore "NumId 42" "StrId ''999''" "StrId ''10''"] h1
  have c1: "\<exists>kind i. create exStore (NumId 42) (StrId ''999'') (StrId ''10'') =
      (Inl (EntityNotFoundError kind i), exStore)" by blast
  from create_referential_integrity[of exStore "NumId 42" "StrId ''1''" "StrId ''99''"] h2 h3 h4
  have c2: "\<exists>entity.
      create exStore (NumId 42) (StrId ''1'') (StrId ''99'') =
        (Inr entity, exStore\<lparr>channelRoles := channelRoles exStore @ [entity],
                              nextId := Suc (nextId exStore)\<rparr>) \<and>
      cr_id entity = NumId (nextId exStore) \<and>
      cr_user entity \<in> set (users exStore) \<and> idsAreEqual (cr_userId entity) (NumId 42) \<and>
      cr_channel entity \<in> set (channels exStore) \<and> idsAreEqual (cr_channelId entity) (StrId ''1'') \<and>
      cr_role entity \<in> set (roles exStore) \<and> idsAreEqual (cr_roleId entity) (StrId ''99'')"
    by blast
  from h1 h2 h3 h4 c1 c2 v show ?thesis by blast
qed

text \<open>
  C6 (contract of Delete). If the association id does not resolve, \<open>delete\<close> fails with an
  EntityNotFoundError. If it resolves and the removal throws, \<open>delete\<close> does not fail: it
  returns a NOT\_DELETED response carrying the message of the thrown value and leaves the
  database unchanged. If it resolves and the removal succeeds, \<open>delete\<close> returns a DELETED
  response and the row is gone.
\<close>

theorem delete_contract:
  "(\<not> resolves cr_id (channelRoles s) i
      \<longrightarrow> delete rm s i = (Inl (EntityNotFoundError ''ChannelRole'' i), s)) \<and>
   (resolves cr_id (channelRoles s) i
      \<longrightarrow> (\<exists>channelRole. getEntityOrThrow ''ChannelRole'' cr_id (channelRoles s) i = Inr channelRole)) \<and>
   (getEntityOrThrow ''ChannelRole'' cr_id (channelRoles s) i = Inr channelRole \<and>
    rm channelRole = Some e
      \<longrightarrow> delete rm s i = (Inr \<lparr>result = NOT_DELETED, message = thrown_message e\<rparr>, s)) \<and>
   (getEntityOrThrow ''ChannelRole'' cr_id (channelRoles s) i = Inr channelRole \<and>
    rm channelRole = None
      \<longrightarrow> delete rm s i =
            (Inr \<lparr>result = DELETED, message = None\<rparr>,
             s\<lparr>channelRoles := filter (\<lambda>cr. \<not> idsAreEqual (cr_id cr) i) (channelRoles s)\<rparr>))"
proof (intro conjI impI)
  assume "\<not> resolves cr_id (channelRoles s) i"
  then show "delete rm s i = (Inl (EntityNotFoundError ''ChannelRole'' i), s)"
    by (simp add: delete_def getEntityOrThrow_unresolved)
next
  assume "resolves cr_id (channelRoles s) i"
  then show "\<exists>channelRole. getEntityOrThrow ''ChannelRole'' cr_id (channelRoles s) i = Inr channelRole"
    by (simp add: getEntityOrThrow_resolves[of cr_id "channelRoles s" i "''ChannelRole''"])
next
  assume "getEntityOrThrow ''ChannelRole'' cr_id (channelRoles s) i = Inr channelRole \<and>
    rm channelRole = Some e"
  then show "delete rm s i = (Inr \<lparr>result = NOT_DELETED, message = thrown_message e\<rparr>, s)"
    by (simp add: delete_def repoRemove_def)
next
  assume a: "getEntityOrThrow ''ChannelRole'' cr_id (channelRoles s) i = Inr channelRole \<and>
    rm channelRole = None"
  then have d: "delete rm s i = (Inr \<lparr>result = DELETED, message = None\<rparr>,
      s\<lparr>channelRoles := filter (\<lambda>cr. \<not> idsAreEqual (cr_id cr) (cr_id channelRole)) (channelRoles s)\<rparr>)"
    by (simp add: delete_def repoRemove_def)
  from delete_DELETED[OF d] d
  show "delete rm s i =
            (Inr \<lparr>result = DELETED, message = None\<rparr>,
             s\<lparr>channelRoles := filter (\<lambda>cr. \<not> idsAreEqual (cr_id cr) i) (channelRoles s)\<rparr>)"
    by simp
qed

theorem delete_contract_witness:
  "\<not> resolves cr_id (channelRoles exStore) (StrId ''999'') \<and>
   delete rmSecond exStore (StrId ''999'') = (Inl (EntityNotFoundError ''ChannelRole'' (StrId ''999'')), exStore) \<and>
   getEntityOrThrow ''ChannelRole'' cr_id (channelRoles exStore) (StrId ''2'') = Inr row2 \<and>
   rmSecond row2 = Some (Thrown (Some ''FOREIGN KEY constraint failed'')) \<and>
   delete rmSecond exStore (StrId ''2'') =
     (Inr \<lparr>result = NOT_DELETED,
           message = thrown_message (Thrown (Some ''FOREIGN KEY constraint failed''))\<rparr>, exStore) \<and>
   getEntityOrThrow ''ChannelRole'' cr_id (channelRoles exStore) (NumId 3) = Inr row3 \<and>
   rmSecond row3 = None \<and>
   delete rmSecond exStore (NumId 3) =
     (Inr \<lparr>result = DELETED, message = None\<rparr>,
      exStore\<lparr>channelRoles := filter (\<lambda>cr. \<not> idsAreEqual (cr_id cr) (NumId 3)) (channelRoles exStore)\<rparr>) \<and>
   filter (\<lambda>cr. \<not> idsAreEqual (cr_id cr) (NumId 3)) (channelRoles exStore) = [row1, row2]"
proof -
  have h1: "\<not> resolves cr_id (channelRoles exStore) (StrId ''999'')" by code_simp
  have h2: "getEntityOrThrow ''ChannelRole'' cr_id (channelRoles exStore) (StrId ''2'') = Inr row2"
    by code_simp
  have h3: "rmSecond row2 = Some (Thrown (Some ''FOREIGN KEY constraint failed''))" by code_simp
  have h4: "getEntityOrThrow ''ChannelRole'' cr_id (channelRoles exStore) (NumId 3) = Inr row3"
    by code_simp
  have h5: "rmSecond row3 = None" by code_simp
  have v: "filter (\<lambda>cr. \<not> idsAreEqual (cr_id cr) (NumId 3)) (channelRoles exStore) = [row1, row2]"
    by code_simp
  from delete_contract[of exStore "StrId ''999''" rmSecond] h1
  have c1: "delete rmSecond exStore (StrId ''999'') =
      (Inl (EntityNotFoundError ''ChannelRole'' (StrId ''999'')), exStore)" by blast
  from delete_contract[of exStore "StrId ''2''" rmSecond row2
      "Thrown (Some ''FOREIGN KEY constraint failed'')"] h2 h3
  have c2: "delete rmSecond exStore (StrId ''2'') =
     (Inr \<lparr>result = NOT_DELETED,
           message = thrown_message (Thrown (Some ''FOREIGN KEY constraint failed''))\<rparr>, exStore)"
    by blast
  from delete_contract[of exStore "NumId 3" rmSecond row3] h4 h5
  have c3: "delete rmSecond exStore (NumId 3) =
     (Inr \<lparr>result = DELETED, message = None\<rparr>,
      exStore\<lparr>channelRoles := filter (\<lambda>cr. \<not> idsAreEqual (cr_id cr) (NumId 3)) (channelRoles exStore)\<rparr>)"
    by blast
  from h1 h2 h3 h4 h5 v c1 c2 c3 show ?thesis by blast
qed


section \<open>Claims about the permission view\<close>

text \<open>
  C7 (shape of the permission view). \<open>getPermissionsForUser\<close> returns one entry per
  association of the user, in the order of the associations: the i-th entry pairs the id,
  token and code of the i-th association's channel with the permissions of its role.
  Entries are never merged, so a channel reached through several associations appears
  several times, and a user without associations gets the empty sequence.
\<close>

theorem getPermissionsForUser_shape:
  "length (getPermissionsForUser s user) = length (findByUser s (user_id user)) \<and>
   (\<forall>i < length (findByUser s (user_id user)).
      getPermissionsForUser s user ! i =
        \<lparr>ucp_id = channel_id (cr_channel (findByUser s (user_id user) ! i)),
         ucp_token = channel_token (cr_channel (findByUser s (user_id user) ! i)),
         ucp_code = channel_code (cr_channel (findByUser s (user_id user) ! i)),
         ucp_permissions = role_permissions (cr_role (findByUser s (user_id user) ! i))\<rparr>) \<and>
   (findByUser s (user_id user) = [] \<longrightarrow> getPermissionsForUser s user = [])"
  by (simp add: getPermissionsForUser_def)

theorem getPermissionsForUser_shape_witness:
  "findByUser (storeWith [row1, row3, row4] 5) (user_id alice) = [row1, row4] \<and>
   cr_channel row1 = cr_channel row4 \<and>
   length (getPermissionsForUser (storeWith [row1, row3, row4] 5) alice) = 2 \<and>
   getPermissionsForUser (storeWith [row1, row3, row4] 5) alice ! 0 =
     \<lparr>ucp_id = NumId 1, ucp_token = ''token-a'', ucp_code = ''channel-a'',
      ucp_permissions = [''ReadCatalog'', ''UpdateCatalog'']\<rparr> \<and>
   getPermissionsForUser (storeWith [row1, row3, row4] 5) alice ! 1 =
     \<lparr>ucp_id = NumId 1, ucp_token = ''token-a'', ucp_code = ''channel-a'',
      ucp_permissions = [''ReadCustomer'']\<rparr> \<and>
   findByUser (storeWith [row3] 4) (user_id alice) = [] \<and>
   getPermissionsForUser (storeWith [row3] 4) alice = []"
proof -
  let ?s = "storeWith [row1, row3, row4] 5"
  have f: "findByUser ?s (user_id alice) = [row1, row4]" by code_simp
  have same: "cr_channel row1 = cr_channel row4" by code_simp
  have e: "findByUser (storeWith [row3] 4) (user_id alice) = []" by code_simp
  note t = getPermissionsForUser_shape[of ?s alice]
  from t f have len: "length (getPermissionsForUser ?s alice) = 2" by simp
  from t f have "getPermissionsForUser ?s alice ! 0 =
        \<lparr>ucp_id = channel_id (cr_channel ([row1, row4] ! 0)),
         ucp_token = channel_token (cr_channel ([row1, row4] ! 0)),
         ucp_code = channel_code (cr_channel ([row1, row4] ! 0)),
         ucp_permissions = role_permissions (cr_role ([row1, row4] ! 0))\<rparr>"
    by simp
  then have e0: "getPermissionsForUser ?s alice ! 0 =
     \<lparr>ucp_id = NumId 1, ucp_token = ''token-a'', ucp_code = ''channel-a'',
      ucp_permissions = [''ReadCatalog'', ''UpdateCatalog'']\<rparr>"
    by (simp add: row1_def channelA_def roleX_def)
  from t f have "getPermissionsForUser ?s alice ! 1 =
        \<lparr>ucp_id = channel_id (cr_channel ([row1, row4] ! 1)),
         ucp_token = channel_token (cr_channel ([row1, row4] ! 1)),
         ucp_code = channel_code (cr_channel ([row1, row4] ! 1)),
         ucp_permissions = role_permissions (cr_role ([row1, row4] ! 1))\<rparr>"
    by simp
  then have e1: "getPermissionsForUser ?s alice ! 1 =
     \<lparr>ucp_id = NumId 1, ucp_token = ''token-a'', ucp_code = ''channel-a'',
      ucp_permissions = [''ReadCustomer'']\<rparr>"
    by (simp add: row4_def channelA_def roleZ_def)
  from getPermissionsForUser_shape[of "storeWith [row3] 4" alice] e
  have n: "getPermissionsForUser (storeWith [row3] 4) alice = []" by blast
  from f same len e0 e1 e n show ?thesis by blast
qed


section \<open>Claims about the resolver\<close>

text \<open>
  C9 (overridden mutations). Whatever the administrator service, the request context, the
  arguments and the state of the system, \<open>createAdministrator\<close> and \<open>updateAdministrator\<close>
  raise an IllegalOperationError and leave the state as it was: the service is not called
  and no administrator is returned.
\<close>

theorem overridden_mutations_always_throw:
  "createAdministrator administratorService ctx args s =
     (Inl (IllegalOperationError ''error.channel-role-plugin-create-administrator-deprecated''), s) \<and>
   updateAdministrator administratorService ctx args' s =
     (Inl (IllegalOperationError ''error.channel-role-plugin-update-administrator-deprecated''), s) \<and>
   fst (createAdministrator administratorService ctx args s) \<noteq> Inr administrator \<and>
   fst (updateAdministrator administratorService ctx args' s) \<noteq> Inr administrator"
  by (simp add: createAdministrator_def updateAdministrator_def)

section \<open>Claims about the diff\<close>

lemma toAddPairs_filter:
  "toAddPairs cur input = filter (\<lambda>q. inputPair q \<notin> rowPair ` set cur) input"
  unfolding toAddPairs_def find_None_iff pairMatch_iff
  by (rule filter_cong) (auto simp: image_iff)

lemma toRemoveChannelRoles_filter:
  "toRemoveChannelRoles cur input = filter (\<lambda>cr. rowPair cr \<notin> inputPair ` set input) cur"
  unfolding toRemoveChannelRoles_def find_None_iff pairMatch_iff'
  by (rule filter_cong) (auto simp: image_iff)

text \<open>
  C2, as the code has it. Within one Save the desired list is only tested for membership
  under the normalising equality: the associations to remove depend on the set of desired
  pairs alone, and a pair that matches a current association issues no creation however
  often it occurs. Duplicates are not collapsed: a pair that matches no current association
  gets one creation for each of its occurrences in the desired list.
\<close>

theorem toAddPairs_multiplicity:
  "length (filter (\<lambda>q. inputPair q = inputPair p) (toAddPairs cur input)) =
     (if inputPair p \<in> rowPair ` set cur then 0
      else length (filter (\<lambda>q. inputPair q = inputPair p) input)) \<and>
   toRemoveChannelRoles cur input = filter (\<lambda>cr. rowPair cr \<notin> inputPair ` set input) cur"
proof (intro conjI)
  show "toRemoveChannelRoles cur input = filter (\<lambda>cr. rowPair cr \<notin> inputPair ` set input) cur"
    by (rule toRemoveChannelRoles_filter)
next
  show "length (filter (\<lambda>q. inputPair q = inputPair p) (toAddPairs cur input)) =
     (if inputPair p \<in> rowPair ` set cur then 0
      else length (filter (\<lambda>q. inputPair q = inputPair p) input))"
  proof (cases "inputPair p \<in> rowPair ` set cur")
    case True
    then have "filter (\<lambda>q. inputPair q = inputPair p) (toAddPairs cur input) = []"
      by (auto simp: toAddPairs_filter filter_empty_conv)
    with True show ?thesis by simp
  next
    case False
    then have "filter (\<lambda>q. inputPair q = inputPair p) (toAddPairs cur input) =
        filter (\<lambda>q. inputPair q = inputPair p) input"
      unfolding toAddPairs_filter filter_filter by (intro filter_cong) (auto simp: image_iff)
    with False show ?thesis by simp
  qed
qed

theorem toAddPairs_multiplicity_witness:
  "inputPair pairStr = inputPair pairNum \<and>
   inputPair pairNum \<notin> rowPair ` set (findByUser exStore (user_id bob)) \<and>
   length (filter (\<lambda>q. inputPair q = inputPair pairNum)
             (toAddPairs (findByUser exStore (user_id bob)) [pairNum, pairStr])) = 2 \<and>
   inputPair pairNum \<in> rowPair ` set (findByUser exStore (user_id alice)) \<and>
   length (filter (\<lambda>q. inputPair q = inputPair pairNum)
             (toAddPairs (findByUser exStore (user_id alice)) [pairNum, pairStr])) = 0"
proof -
  have h0: "inputPair pairStr = inputPair pairNum" by code_simp
  have h1: "inputPair pairNum \<notin> rowPair ` set (findByUser exStore (user_id bob))" by code_simp
  have h2: "inputPair pairNum \<in> rowPair ` set (findByUser exStore (user_id alice))" by code_simp
  from toAddPairs_multiplicity[of pairNum "findByUser exStore (user_id bob)" "[pairNum, pairStr]"] h0 h1
  have c1: "length (filter (\<lambda>q. inputPair q = inputPair pairNum)
             (toAddPairs (findByUser exStore (user_id bob)) [pairNum, pairStr])) = 2" by simp
  from toAddPairs_multiplicity[of pairNum "findByUser exStore (user_id alice)" "[pairNum, pairStr]"] h2
  have c2: "length (filter (\<lambda>q. inputPair q = inputPair pairNum)
             (toAddPairs (findByUser exStore (user_id alice)) [pairNum, pairStr])) = 0" by simp
  from h0 h1 h2 c1 c2 show ?thesis by blast
qed

text \<open>
  The desired list \<open>[(2, 20), ("2", "20")]\<close> for Bob names one pair twice, and Bob holds
  no such association. Both entries pass the filter, two creations are issued, and Save
  persists two rows with different keys for the one pair.
\<close>

theorem duplicates_not_collapsed:
  "idsAreEqual (channelId pairNum) (channelId pairStr) \<and>
   idsAreEqual (roleId pairNum) (roleId pairStr) \<and>
   toAddPairs (findByUser exStore (user_id bob)) [pairNum, pairStr] = [pairNum, pairStr] \<and>
   saveUserRoles rmNone exStore bob [pairNum, pairStr] =
     (Inr (), storeWith [row1, row2, row4b, row5b] 6) \<and>
   cr_id row4b \<noteq> cr_id row5b \<and> rowPair row4b = rowPair row5b"
  by code_simp

section \<open>Claims about the removal phase\<close>

text \<open>
  C4, as the code has it. Once the creations have succeeded, if the deletions of the
  associations before some position of the diff succeed and the deletion at that position
  reports NOT\_DELETED, then Save raises the InternalServerError
  \<open>error.channel-role-deletion-failed\<close>. The error carries the message of the response
  when there is one and it is not empty, and the text \<open>Unknown error\<close> otherwise. No
  further deletion is performed: the database Save leaves is the one the preceding
  deletions produced, those rows gone and nothing else touched.
\<close>

theorem removal_failure_is_fatal:
  assumes "createAll s (user_id user) (toAddPairs (findByUser s (user_id user)) input) = (None, s1)"
    and "toRemoveChannelRoles (findByUser s (user_id user)) input = done @ failing # pending"
    and "removeChannelRoles rm s1 done = (Inr (), s2)"
    and "delete rm s2 (cr_id failing) = (Inr response, s3)"
    and "result response = NOT_DELETED"
  shows "saveUserRoles rm s user input =
           (Inl (InternalServerError ''error.channel-role-deletion-failed''
                   (case message response of
                      None \<Rightarrow> ''Unknown error''
                    | Some m \<Rightarrow> if m = [] then ''Unknown error'' else m)), s2) \<and>
         channelRoles s2 =
           filter (\<lambda>c. \<forall>x\<in>set done. \<not> idsAreEqual (cr_id c) (cr_id x)) (channelRoles s1)"
proof -
  from delete_NOT_DELETED[OF assms(4,5)] have s3: "s3 = s2" .
  have "removeChannelRoles rm s1 (done @ failing # pending) =
     (Inl (InternalServerError ''error.channel-role-deletion-failed''
             (messageOrUnknown (message response))), s2)"
    using assms(3,4,5) s3 by (simp add: removeChannelRoles_append)
  then have "saveUserRoles rm s user input =
     (Inl (InternalServerError ''error.channel-role-deletion-failed''
             (messageOrUnknown (message response))), s2)"
    using assms(1,2) by (simp add: saveUserRoles_def)
  moreover from removeChannelRoles_Inr[OF assms(3)] have
    "channelRoles s2 =
       filter (\<lambda>c. \<forall>x\<in>set done. \<not> idsAreEqual (cr_id c) (cr_id x)) (channelRoles s1)"
    by simp
  ultimately show ?thesis by (simp add: messageOrUnknown_def)
qed

theorem removal_failure_is_fatal_witness:
  "createAll exStore (user_id alice) (toAddPairs (findByUser exStore (user_id alice)) exInput) =
     (None, storeWith [row1, row2, row3, row4] 5) \<and>
   toRemoveChannelRoles (findByUser exStore (user_id alice)) exInput = [row1] @ row2 # [] \<and>
   removeChannelRoles rmSecond (storeWith [row1, row2, row3, row4] 5) [row1] =
     (Inr (), storeWith [row2, row3, row4] 5) \<and>
   delete rmSecond (storeWith [row2, row3, row4] 5) (cr_id row2) =
     (Inr \<lparr>result = NOT_DELETED, message = Some ''FOREIGN KEY constraint failed''\<rparr>,
      storeWith [row2, row3, row4] 5) \<and>
   saveUserRoles rmSecond exStore alice exInput =
     (Inl (InternalServerError ''error.channel-role-deletion-failed''
             ''FOREIGN KEY constraint failed''), storeWith [row2, row3, row4] 5) \<and>
   channelRoles (storeWith [row2, row3, row4] 5) =
     filter (\<lambda>c. \<forall>x\<in>set [row1]. \<not> idsAreEqual (cr_id c) (cr_id x))
       (channelRoles (storeWith [row1, row2, row3, row4] 5))"
proof -
  let ?resp = "\<lparr>result = NOT_DELETED, message = Some ''FOREIGN KEY constraint failed''\<rparr>"
  have h1: "createAll exStore (user_id alice) (toAddPairs (findByUser exStore (user_id alice)) exInput) =
     (None, storeWith [row1, row2, row3, row4] 5)" by code_simp
  have h2: "toRemoveChannelRoles (findByUser exStore (user_id alice)) exInput = [row1] @ row2 # []"
    by code_simp
  have h3: "removeChannelRoles rmSecond (storeWith [row1, row2, row3, row4] 5) [row1] =
     (Inr (), storeWith [row2, row3, row4] 5)" by code_simp
  have h4: "delete rmSecond (storeWith [row2, row3, row4] 5) (cr_id row2) =
     (Inr ?resp, storeWith [row2, row3, row4] 5)" by code_simp
  have h5: "result ?resp = NOT_DELETED" by simp
  from removal_failure_is_fatal[OF h1 h2 h3 h4 h5]
  have c: "saveUserRoles rmSecond exStore alice exInput =
     (Inl (InternalServerError ''error.channel-role-deletion-failed''
             ''FOREIGN KEY constraint failed''), storeWith [row2, row3, row4] 5) \<and>
     channelRoles (storeWith [row2, row3, row4] 5) =
     filter (\<lambda>c. \<forall>x\<in>set [row1]. \<not> idsAreEqual (cr_id c) (cr_id x))
       (channelRoles (storeWith [row1, row2, row3, row4] 5))"
    by simp
  from h1 h2 h3 h4 c show ?thesis by blast
qed

text \<open>
  A removal that throws a value with an empty message: the response of \<open>delete\<close> carries
  the empty message, the error raised by Save carries \<open>Unknown error\<close>.
\<close>

theorem empty_message_not_carried:
  "delete rmEmptyMessage (storeWith [row1, row2, row3, row4] 5) (cr_id row1) =
     (Inr \<lparr>result = NOT_DELETED, message = Some []\<rparr>, storeWith [row1, row2, row3, row4] 5) \<and>
   saveUserRoles rmEmptyMessage exStore alice exInput =
     (Inl (InternalServerError ''error.channel-role-deletion-failed'' ''Unknown error''),
      storeWith [row1, row2, row3, row4] 5) \<and>
   ''Unknown error'' \<noteq> []"
  by code_simp

text \<open>
  C8 (order of the removals). The associations to remove are the user's rows whose pair
  is not desired, in the insertion order of the junction table, and they are deleted one at
  a time in that order. On a well-formed database, once the creations have succeeded, if
  the first k deletions succeed and the deletion at position k is refused, Save fails, the
  first k associations are gone from the database it leaves, and the associations from
  position k on are all still there.
\<close>

theorem removals_in_insertion_order:
  assumes "wf_store s"
    and "createAll s (user_id user) (toAddPairs (findByUser s (user_id user)) input) = (None, s1)"
    and "k < length (toRemoveChannelRoles (findByUser s (user_id user)) input)"
    and "\<forall>j<k. rm (toRemoveChannelRoles (findByUser s (user_id user)) input ! j) = None"
    and "rm (toRemoveChannelRoles (findByUser s (user_id user)) input ! k) = Some e"
  shows "toRemoveChannelRoles (findByUser s (user_id user)) input =
           filter (\<lambda>cr. idsAreEqual (cr_userId cr) (user_id user) \<and>
                        rowPair cr \<notin> inputPair ` set input) (channelRoles s) \<and>
         (\<exists>err. saveUserRoles rm s user input =
            (Inl err, s1\<lparr>channelRoles :=
               filter (\<lambda>c. c \<notin> set (take k (toRemoveChannelRoles (findByUser s (user_id user)) input)))
                 (channelRoles s1)\<rparr>)) \<and>
         set (take k (toRemoveChannelRoles (findByUser s (user_id user)) input)) \<inter>
           set (channelRoles (snd (saveUserRoles rm s user input))) = {} \<and>
         set (drop k (toRemoveChannelRoles (findByUser s (user_id user)) input)) \<subseteq>
           set (channelRoles (snd (saveUserRoles rm s user input)))"
proof -
  let ?rem = "toRemoveChannelRoles (findByUser s (user_id user)) input"
  let ?s2 = "s1\<lparr>channelRoles := filter (\<lambda>c. c \<notin> set (take k ?rem)) (channelRoles s1)\<rparr>"
  have order: "?rem = filter (\<lambda>cr. idsAreEqual (cr_userId cr) (user_id user) \<and>
                        rowPair cr \<notin> inputPair ` set input) (channelRoles s)"
    by (simp add: toRemoveChannelRoles_filter findByUser_def)
  have split: "?rem = take k ?rem @ (?rem ! k) # drop (Suc k) ?rem"
    using assms(3) by (rule id_take_nth_drop)
  from assms(1) have "distinct (channelRoles s)" by (simp add: wf_store_def distinct_map)
  then have dist: "distinct ?rem" by (simp add: order)
  from createAll_None[OF assms(2)] have sub: "set (channelRoles s) \<subseteq> set (channelRoles s1)"
    by auto
  have rem_sub: "set ?rem \<subseteq> set (channelRoles s1)" using sub by (auto simp: order)
  from createAll_wf[OF assms(1), of "user_id user" "toAddPairs (findByUser s (user_id user)) input"]
    assms(2) have "wf_store s1" by simp
  then have d1: "distinct (map (\<lambda>cr. toString (cr_id cr)) (channelRoles s1))"
    by (simp add: wf_store_def)
  have p2: "set (take k ?rem @ [?rem ! k]) \<subseteq> set (channelRoles s1)"
    using rem_sub assms(3) by (auto dest: in_set_takeD)
  have p3: "distinct (take k ?rem @ [?rem ! k])"
    using dist assms(3) by (simp add: take_Suc_conv_app_nth[symmetric])
  have p4: "\<forall>x\<in>set (take k ?rem). rm x = None"
    using assms(3,4) by (auto simp: in_set_conv_nth)
  have "removeChannelRoles rm s1 (take k ?rem @ (?rem ! k) # drop (Suc k) ?rem) =
     (Inl (InternalServerError ''error.channel-role-deletion-failed''
             (messageOrUnknown (thrown_message e))), ?s2)"
    by (rule removeChannelRoles_prefix[OF d1 p2 p3 p4 assms(5)])
  with split have "removeChannelRoles rm s1 ?rem =
     (Inl (InternalServerError ''error.channel-role-deletion-failed''
             (messageOrUnknown (thrown_message e))), ?s2)"
    by simp
  then have save: "saveUserRoles rm s user input =
     (Inl (InternalServerError ''error.channel-role-deletion-failed''
             (messageOrUnknown (thrown_message e))), ?s2)"
    using assms(2) by (simp add: saveUserRoles_def)
  have gone: "set (take k ?rem) \<inter> set (channelRoles (snd (saveUserRoles rm s user input))) = {}"
    by (auto simp: save)
  have "set (take k ?rem) \<inter> set (drop k ?rem) = {}"
    using dist by (rule set_take_disj_set_drop_if_distinct) simp
  moreover have "set (drop k ?rem) \<subseteq> set (channelRoles s1)"
    using rem_sub by (auto dest: in_set_dropD)
  ultimately have kept: "set (drop k ?rem) \<subseteq> set (channelRoles (snd (saveUserRoles rm s user input)))"
    by (auto simp: save)
  from order save gone kept show ?thesis by blast
qed

theorem removals_in_insertion_order_witness:
  "wf_store exStore \<and>
   createAll exStore (user_id alice) (toAddPairs (findByUser exStore (user_id alice)) exInput) =
     (None, storeWith [row1, row2, row3, row4] 5) \<and>
   toRemoveChannelRoles (findByUser exStore (user_id alice)) exInput = [row1, row2] \<and>
   rmSecond row1 = None \<and>
   rmSecond row2 = Some (Thrown (Some ''FOREIGN KEY constraint failed'')) \<and>
   (\<exists>err. saveUserRoles rmSecond exStore alice exInput =
      (Inl err, (storeWith [row1, row2, row3, row4] 5)\<lparr>channelRoles :=
         filter (\<lambda>c. c \<notin> set (take 1 (toRemoveChannelRoles (findByUser exStore (user_id alice)) exInput)))
           (channelRoles (storeWith [row1, row2, row3, row4] 5))\<rparr>)) \<and>
   set (take 1 (toRemoveChannelRoles (findByUser exStore (user_id alice)) exInput)) \<inter>
     set (channelRoles (snd (saveUserRoles rmSecond exStore alice exInput))) = {} \<and>
   set (drop 1 (toRemoveChannelRoles (findByUser exStore (user_id alice)) exInput)) \<subseteq>
     set (channelRoles (snd (saveUserRoles rmSecond exStore alice exInput))) \<and>
   channelRoles (snd (saveUserRoles rmSecond exStore alice exInput)) = [row2, row3, row4]"
proof -
  let ?rem = "toRemoveChannelRoles (findByUser exStore (user_id alice)) exInput"
  have h1: "wf_store exStore" by code_simp
  have h2: "createAll exStore (user_id alice) (toAddPairs (findByUser exStore (user_id alice)) exInput) =
     (None, storeWith [row1, row2, row3, row4] 5)" by code_simp
  have r: "?rem = [row1, row2]" by code_simp
  have a: "rmSecond row1 = None" by code_simp
  have b: "rmSecond row2 = Some (Thrown (Some ''FOREIGN KEY constraint failed''))" by code_simp
  have h3: "1 < length ?rem" by (simp add: r)
  have h4: "\<forall>j<1. rmSecond (?rem ! j) = None" by (simp add: r a)
  have h5: "rmSecond (?rem ! 1) = Some (Thrown (Some ''FOREIGN KEY constraint failed''))"
    by (simp add: r b)
  have v: "channelRoles (snd (saveUserRoles rmSecond exStore alice exInput)) = [row2, row3, row4]"
    by code_simp
  from removals_in_insertion_order[OF h1 h2 h3 h4 h5] h1 h2 r a b v show ?thesis by blast
qed

end
